theory Spec2Isabelle
  imports Main
begin

section \<open>The MetaKeep connector (src/connectors/metaKeep.ts)\<close>

text \<open>
  The connector is a closure over two mutable variables, \<open>provider\<close> and
  \<open>providerPromise\<close>, and over the services of the host framework (\<open>config.chains\<close>,
  \<open>config.storage\<close>, \<open>config.emitter\<close>).  Every operation is an \<open>async\<close> function.
  It is modelled as a function from the connector state to an outcome and the state
  afterwards; the effects made before a \<open>throw\<close> stay in the state, as they do in
  JavaScript.  The operations are run one at a time, each to its end, and so is a call
  that the source does not await.  Only \<open>getProvider\<close> is also given in two halves,
  split at its \<open>await\<close>, to interleave several calls.  Chain ids are natural numbers.
\<close>

subsection \<open>Errors and outcomes\<close>

text \<open>
  \<open>AppIdNotFound\<close> is \<open>new Error('appId not found')\<close>.  \<open>TypeError\<close> is what reading a
  property of \<open>undefined\<close> throws.  \<open>InvalidAddressError\<close> is thrown by viem's
  \<open>getAddress\<close>.  \<open>ExternalError c\<close> is any error thrown by the SDK, the provider or
  the storage, with its \<open>code\<close> property when it has one.  The other constructors are
  the error classes of viem and \<open>@wagmi/core\<close> that the connector instantiates.
\<close>

datatype error =
    AppIdNotFound
  | TypeError
  | InvalidAddressError
  | ExternalError "int option"
  | ChainNotConfiguredError
  | SwitchChainError error
  | UserRejectedRequestError error
  | ResourceUnavailableRpcError error

definition UserRejectedRequestError_code :: int where
  "UserRejectedRequestError_code = 4001"

definition ResourceUnavailableRpcError_code :: int where
  "ResourceUnavailableRpcError_code = - 32002"

definition SwitchChainError_code :: int where
  "SwitchChainError_code = 4902"

text \<open>\<open>error.code\<close>; \<open>None\<close> is \<open>undefined\<close>.\<close>

fun code :: "error \<Rightarrow> int option" where
  "code AppIdNotFound = None"
| "code TypeError = None"
| "code InvalidAddressError = None"
| "code (ExternalError c) = c"
| "code ChainNotConfiguredError = None"
| "code (SwitchChainError e) = Some SwitchChainError_code"
| "code (UserRejectedRequestError e) = Some UserRejectedRequestError_code"
| "code (ResourceUnavailableRpcError e) = Some ResourceUnavailableRpcError_code"

text \<open>
  The promise an operation returns is fulfilled (\<open>Return\<close>), rejected (\<open>Throw\<close>) or
  never settled (\<open>Hang\<close>).
\<close>

datatype 'a outcome = Return 'a | Throw error | Hang

subsection \<open>The provider and its listeners\<close>

text \<open>
  A listener is a function object, and the provider compares listeners by identity.
  \<open>this.onChainChanged\<close> is the connector's own method, the same object at every
  use (\<open>MethodFn\<close>).  \<open>this.onConnect.bind(this)\<close> makes a new function object each time
  it is evaluated; \<open>BoundFn h k\<close> is the \<open>k\<close>-th function object made by \<open>bind\<close>.
\<close>

datatype handler = OnConnect | OnAccountsChanged | OnChainChanged | OnDisconnect

datatype listener = MethodFn handler | BoundFn handler nat

text \<open>
  The provider is the ethers \<open>Web3Provider\<close> made in \<open>connect\<close>.  \<open>handle\<close> tells the
  provider objects apart (the number of providers constructed before it); \<open>events\<close> is
  its list of registrations, in the order they were made.
\<close>

record web3_provider =
  handle :: nat
  events :: "(string \<times> listener) list"

text \<open>
  \<open>provider.on(name, listener)\<close> appends a registration.
  \<open>provider.removeListener(name, listener)\<close> drops the first registration with this
  name and this very listener, and nothing when there is none.
\<close>

definition on_events :: "string \<Rightarrow> listener \<Rightarrow> web3_provider \<Rightarrow> web3_provider" where
  "on_events name l p = p\<lparr>events := events p @ [(name, l)]\<rparr>"

definition removeListener_events :: "string \<Rightarrow> listener \<Rightarrow> web3_provider \<Rightarrow> web3_provider" where
  "removeListener_events name l p = p\<lparr>events := remove1 (name, l) (events p)\<rparr>"

text \<open>The listener set of a provider: the event names with a registration.\<close>

definition listener_set :: "web3_provider \<Rightarrow> string set" where
  "listener_set p = fst ` set (events p)"

definition pre_connect_set :: "string set" where
  "pre_connect_set = {''connect''}"

definition post_connect_set :: "string set" where
  "post_connect_set = {''accountsChanged'', ''chainChanged'', ''disconnect''}"

subsection \<open>State and environment\<close>

text \<open>What \<open>config.emitter.emit\<close> was called with.\<close>

datatype emitted =
    EmitConnect "string list" nat
  | EmitChangeAccounts "string list"
  | EmitChangeChainId nat
  | EmitDisconnect

text \<open>The calls made to the SDK and to the provider's transport, in order.\<close>

datatype sdk_call =
    ImportMetaKeep
  | NewMetaKeep
  | SdkEthereum
  | SignerGetAddress
  | SignerGetChainId
  | ProviderSend nat

record chain =
  chain_id :: nat

text \<open>
  \<open>provider\<close> and \<open>providerPromise\<close> are the two variables of the closure
  (\<open>providerPromise = Some v\<close>: assigned a promise that resolves to \<open>v\<close>).
  \<open>storage\<close> is \<open>config.storage\<close> (\<open>None\<close>: the host configured no storage),
  \<open>localStorage\<close> the global of that name (\<open>None\<close>: not defined),
  \<open>connect_listeners\<close> is \<open>config.emitter.listenerCount('connect')\<close>, which the host
  controls.  \<open>world\<close> is the state of everything outside the connector.  The other fields
  record what happened: the events emitted, the SDK calls made, how often
  \<open>initProvider\<close> ran, how many providers were constructed and how many function
  objects \<open>bind\<close> made.
\<close>

record 'w state =
  provider :: "web3_provider option"
  providerPromise :: "web3_provider option option"
  storage :: "(string \<rightharpoonup> bool) option"
  localStorage :: "(string \<rightharpoonup> string) option"
  connect_listeners :: nat
  world :: 'w
  emitted :: "emitted list"
  sdk_calls :: "sdk_call list"
  init_calls :: nat
  constructed :: nat
  bound_fns :: nat

text \<open>
  \<open>appId\<close> is \<open>parameters.appId\<close> and \<open>chains\<close> is \<open>config.chains\<close>.  The other fields
  are what the connector calls but does not define: each takes the state of the outside
  world and answers with a result (\<open>Inl c\<close>: it throws an error with code \<open>c\<close>) and the
  world afterwards.  \<open>import_metakeep\<close> is \<open>await import('metakeep')\<close>, the loading of
  the SDK module; \<open>sdk_ethereum\<close> is \<open>await sdk.ethereum\<close> and the wrapping in a
  \<open>Web3Provider\<close>; \<open>provider_send c\<close> is the \<open>wallet_switchEthereumChain\<close> request for
  chain \<open>c\<close>; \<open>change_event c\<close> tells whether the first \<open>change\<close> event of the emitter
  after the request carries the chain id \<open>c\<close>; \<open>storage_fault\<close> tells whether a storage
  access throws; \<open>getAddress\<close> is viem's checksum function (\<open>None\<close>: it throws).
\<close>

record 'w env =
  appId :: "string option"
  chains :: "chain list"
  import_metakeep :: "'w \<Rightarrow> (int option + unit) \<times> 'w"
  sdk_ethereum :: "'w \<Rightarrow> (int option + unit) \<times> 'w"
  signer_getAddress :: "'w \<Rightarrow> (int option + string) \<times> 'w"
  signer_getChainId :: "'w \<Rightarrow> (int option + nat) \<times> 'w"
  provider_send :: "nat \<Rightarrow> 'w \<Rightarrow> (int option + unit) \<times> 'w"
  change_event :: "nat \<Rightarrow> 'w \<Rightarrow> bool \<times> 'w"
  storage_fault :: "'w \<Rightarrow> int option option \<times> 'w"
  getAddress :: "string \<Rightarrow> string option"

type_synonym ('a, 'w) async = "'w state \<Rightarrow> 'a outcome \<times> 'w state"

subsection \<open>Sequencing\<close>

definition ret :: "'a \<Rightarrow> ('a, 'w) async" where
  "ret a s = (Return a, s)"

definition throw :: "error \<Rightarrow> ('a, 'w) async" where
  "throw e s = (Throw e, s)"

text \<open>\<open>await m\<close>, then \<open>f\<close> of its value.\<close>

definition bnd :: "('a, 'w) async \<Rightarrow> ('a \<Rightarrow> ('b, 'w) async) \<Rightarrow> ('b, 'w) async" where
  "bnd m f s =
     (case m s of
        (Return a, s') \<Rightarrow> f a s'
      | (Throw e, s') \<Rightarrow> (Throw e, s')
      | (Hang, s') \<Rightarrow> (Hang, s'))"

text \<open>\<open>try { m } catch (e) { h e }\<close>, and \<open>m.catch(h)\<close>.\<close>

definition try_catch :: "('a, 'w) async \<Rightarrow> (error \<Rightarrow> ('a, 'w) async) \<Rightarrow> ('a, 'w) async" where
  "try_catch m h s =
     (case m s of
        (Return a, s') \<Rightarrow> (Return a, s')
      | (Throw e, s') \<Rightarrow> h e s'
      | (Hang, s') \<Rightarrow> (Hang, s'))"

text \<open>
  A call that is not awaited: its effects happen, its value and its rejection are
  dropped.
\<close>

definition not_awaited :: "('a, 'w) async \<Rightarrow> (unit, 'w) async" where
  "not_awaited m s = (Return (), snd (m s))"

definition modify :: "('w state \<Rightarrow> 'w state) \<Rightarrow> (unit, 'w) async" where
  "modify f s = (Return (), f s)"

definition record_call :: "sdk_call \<Rightarrow> (unit, 'w) async" where
  "record_call c = modify (\<lambda>s. s\<lparr>sdk_calls := sdk_calls s @ [c]\<rparr>)"

text \<open>A call to the outside: it is recorded, the world moves on, the answer comes back.\<close>

definition external :: "sdk_call \<Rightarrow> ('w \<Rightarrow> (int option + 'a) \<times> 'w) \<Rightarrow> ('a, 'w) async" where
  "external c f s =
     (case f (world s) of
        (Inl e, w') \<Rightarrow> (Throw (ExternalError e), s\<lparr>world := w', sdk_calls := sdk_calls s @ [c]\<rparr>)
      | (Inr a, w') \<Rightarrow> (Return a, s\<lparr>world := w', sdk_calls := sdk_calls s @ [c]\<rparr>))"

definition emit :: "emitted \<Rightarrow> (unit, 'w) async" where
  "emit ev = modify (\<lambda>s. s\<lparr>emitted := emitted s @ [ev]\<rparr>)"

subsection \<open>Function objects and provider calls\<close>

text \<open>\<open>this.h.bind(this)\<close> and \<open>this.h\<close>.\<close>

definition this_bind :: "handler \<Rightarrow> (listener, 'w) async" where
  "this_bind h s = (Return (BoundFn h (bound_fns s)), s\<lparr>bound_fns := Suc (bound_fns s)\<rparr>)"

definition this_method :: "handler \<Rightarrow> (listener, 'w) async" where
  "this_method h = ret (MethodFn h)"

text \<open>
  \<open>p.on(name, l)\<close> and \<open>p.removeListener(name, l)\<close> for a local \<open>p\<close> that holds what
  \<open>getProvider\<close> returned, or the closure's variable.  Reading the method of \<open>undefined\<close>
  throws before the argument is evaluated.  There is one provider object at a time,
  the one in the closure's variable, and the call changes that object.
\<close>

definition provider_call ::
  "web3_provider option \<Rightarrow> (listener \<Rightarrow> web3_provider \<Rightarrow> web3_provider) \<Rightarrow>
   (listener, 'w) async \<Rightarrow> (unit, 'w) async" where
  "provider_call p f arg =
     (case p of
        None \<Rightarrow> throw TypeError
      | Some _ \<Rightarrow> bnd arg (\<lambda>l. modify (\<lambda>s. s\<lparr>provider := map_option (f l) (provider s)\<rparr>)))"

definition provider_on ::
  "web3_provider option \<Rightarrow> string \<Rightarrow> (listener, 'w) async \<Rightarrow> (unit, 'w) async" where
  "provider_on p name arg = provider_call p (on_events name) arg"

definition provider_removeListener ::
  "web3_provider option \<Rightarrow> string \<Rightarrow> (listener, 'w) async \<Rightarrow> (unit, 'w) async" where
  "provider_removeListener p name arg = provider_call p (removeListener_events name) arg"

text \<open>
  The two exchanges of listeners.  \<open>connect\<close> (lines 75 to 84) and \<open>onConnect\<close> (lines
  207 to 210) make the same four calls, and so do \<open>disconnect\<close> (lines 110 to 116) and
  \<open>onDisconnect\<close> (lines 227 to 230); \<open>p\<close> is the provider they are made on.
\<close>

definition post_connect_listeners :: "web3_provider option \<Rightarrow> (unit, 'w) async" where
  "post_connect_listeners p =
     bnd (provider_removeListener p ''connect'' (this_bind OnConnect)) (\<lambda>_.
     bnd (provider_on p ''accountsChanged'' (this_bind OnAccountsChanged)) (\<lambda>_.
     bnd (provider_on p ''chainChanged'' (this_method OnChainChanged)) (\<lambda>_.
     provider_on p ''disconnect'' (this_bind OnDisconnect))))"

definition pre_connect_listeners :: "web3_provider option \<Rightarrow> (unit, 'w) async" where
  "pre_connect_listeners p =
     bnd (provider_removeListener p ''accountsChanged'' (this_bind OnAccountsChanged)) (\<lambda>_.
     bnd (provider_removeListener p ''chainChanged'' (this_method OnChainChanged)) (\<lambda>_.
     bnd (provider_removeListener p ''disconnect'' (this_bind OnDisconnect)) (\<lambda>_.
     provider_on p ''connect'' (this_bind OnConnect))))"

subsection \<open>Storage\<close>

definition disconnected_key :: string where
  "disconnected_key = ''metaKeep.disconnected''"

text \<open>
  \<open>await config.storage?.f(...)\<close>: nothing happens without a storage; with one, the
  access may throw, and otherwise reads or changes the entries.
\<close>

definition storage_getItem :: "'w env \<Rightarrow> string \<Rightarrow> (bool option, 'w) async" where
  "storage_getItem E k s =
     (case storage s of
        None \<Rightarrow> (Return None, s)
      | Some m \<Rightarrow>
          (case storage_fault E (world s) of
             (Some e, w') \<Rightarrow> (Throw (ExternalError e), s\<lparr>world := w'\<rparr>)
           | (None, w') \<Rightarrow> (Return (m k), s\<lparr>world := w'\<rparr>)))"

definition storage_write ::
  "'w env \<Rightarrow> ((string \<rightharpoonup> bool) \<Rightarrow> (string \<rightharpoonup> bool)) \<Rightarrow> (unit, 'w) async" where
  "storage_write E f s =
     (case storage s of
        None \<Rightarrow> (Return (), s)
      | Some m \<Rightarrow>
          (case storage_fault E (world s) of
             (Some e, w') \<Rightarrow> (Throw (ExternalError e), s\<lparr>world := w'\<rparr>)
           | (None, w') \<Rightarrow> (Return (), s\<lparr>world := w', storage := Some (f m)\<rparr>)))"

definition storage_setItem :: "'w env \<Rightarrow> string \<Rightarrow> bool \<Rightarrow> (unit, 'w) async" where
  "storage_setItem E k v = storage_write E (\<lambda>m. m(k \<mapsto> v))"

definition storage_removeItem :: "'w env \<Rightarrow> string \<Rightarrow> (unit, 'w) async" where
  "storage_removeItem E k = storage_write E (\<lambda>m. m(k := None))"

subsection \<open>getProvider\<close>

text \<open>
  \<open>initProvider\<close> has an empty body: the promise it returns resolves to \<open>undefined\<close>.
\<close>

definition initProvider :: "'w state \<Rightarrow> web3_provider option \<times> 'w state" where
  "initProvider s = (None, s\<lparr>init_calls := Suc (init_calls s)\<rparr>)"

text \<open>
  A call of \<open>getProvider\<close> runs up to its \<open>await\<close> (\<open>getProvider_begin\<close>) and is resumed
  later (\<open>getProvider_resume\<close>).  In between it is either done, with the provider it
  found, or waits for the promise, which resolves to the value given.
\<close>

datatype suspended = Settled "web3_provider option" | Awaiting "web3_provider option"

definition getProvider_begin :: "'w state \<Rightarrow> suspended \<times> 'w state" where
  "getProvider_begin s =
     (case provider s of
        None \<Rightarrow>
          (case providerPromise s of
             None \<Rightarrow>
               (case initProvider s of
                  (v, s') \<Rightarrow> (Awaiting v, s'\<lparr>providerPromise := Some v\<rparr>))
           | Some v \<Rightarrow> (Awaiting v, s))
      | Some p \<Rightarrow> (Settled (Some p), s))"

definition getProvider_resume :: "suspended \<Rightarrow> 'w state \<Rightarrow> web3_provider option \<times> 'w state" where
  "getProvider_resume k s =
     (case k of
        Settled p \<Rightarrow> (p, s)
      | Awaiting v \<Rightarrow> (v, s\<lparr>provider := v\<rparr>))"

definition getProvider :: "(web3_provider option, 'w) async" where
  "getProvider s =
     (case getProvider_begin s of
        (k, s') \<Rightarrow> (case getProvider_resume k s' of (p, s'') \<Rightarrow> (Return p, s'')))"

text \<open>
  \<open>n\<close> calls made one after the other before any of them is resumed, then resumed in
  the order they were made, which is the order of the microtask queue.
\<close>

fun begin_all :: "nat \<Rightarrow> 'w state \<Rightarrow> suspended list \<times> 'w state" where
  "begin_all 0 s = ([], s)"
| "begin_all (Suc n) s =
     (case getProvider_begin s of
        (k, s') \<Rightarrow> (case begin_all n s' of (ks, s'') \<Rightarrow> (k # ks, s'')))"

fun resume_all :: "suspended list \<Rightarrow> 'w state \<Rightarrow> web3_provider option list \<times> 'w state" where
  "resume_all [] s = ([], s)"
| "resume_all (k # ks) s =
     (case getProvider_resume k s of
        (p, s') \<Rightarrow> (case resume_all ks s' of (ps, s'') \<Rightarrow> (p # ps, s'')))"

definition getProvider_concurrently ::
  "nat \<Rightarrow> 'w state \<Rightarrow> web3_provider option list \<times> 'w state" where
  "getProvider_concurrently n s = (case begin_all n s of (ks, s') \<Rightarrow> resume_all ks s')"

subsection \<open>getAccounts, getChainId\<close>

text \<open>\<open>accounts.map((x) => getAddress(x))\<close>: the first address that is refused throws.\<close>

fun map_getAddress :: "(string \<Rightarrow> string option) \<Rightarrow> string list \<Rightarrow> string list option" where
  "map_getAddress g [] = Some []"
| "map_getAddress g (x # xs) =
     (case g x of
        None \<Rightarrow> None
      | Some y \<Rightarrow> (case map_getAddress g xs of None \<Rightarrow> None | Some ys \<Rightarrow> Some (y # ys)))"

definition getAccounts :: "'w env \<Rightarrow> (string list, 'w) async" where
  "getAccounts E =
     bnd getProvider (\<lambda>p.
       case p of
         None \<Rightarrow> throw TypeError
       | Some _ \<Rightarrow>
           bnd (external SignerGetAddress (signer_getAddress E)) (\<lambda>a.
             case map_getAddress (getAddress E) [a] of
               None \<Rightarrow> throw InvalidAddressError
             | Some accounts \<Rightarrow> ret accounts))"

definition getChainId :: "'w env \<Rightarrow> (nat, 'w) async" where
  "getChainId E =
     bnd getProvider (\<lambda>p.
       case p of
         None \<Rightarrow> throw TypeError
       | Some _ \<Rightarrow> external SignerGetChainId (signer_getChainId E))"

subsection \<open>switchChain\<close>

text \<open>
  The second promise of the \<open>Promise.all\<close> is fulfilled by the first \<open>change\<close> event
  (\<open>once\<close>) when it carries the requested chain id, and never otherwise.
\<close>

definition await_change :: "'w env \<Rightarrow> nat \<Rightarrow> (unit, 'w) async" where
  "await_change E c s =
     (case change_event E c (world s) of
        (True, w') \<Rightarrow> (Return (), s\<lparr>world := w'\<rparr>)
      | (False, w') \<Rightarrow> (Hang, s\<lparr>world := w'\<rparr>))"

definition switchChain :: "'w env \<Rightarrow> nat \<Rightarrow> (chain, 'w) async" where
  "switchChain E chainId =
     bnd getProvider (\<lambda>p.
       case find (\<lambda>x. chain_id x = chainId) (chains E) of
         None \<Rightarrow> throw (SwitchChainError ChainNotConfiguredError)
       | Some chain \<Rightarrow>
           try_catch
             (bnd (case p of
                     None \<Rightarrow> throw TypeError
                   | Some _ \<Rightarrow> external (ProviderSend chainId) (provider_send E chainId)) (\<lambda>_.
              bnd (await_change E chainId) (\<lambda>_.
              ret chain)))
             (\<lambda>error.
                if code error = Some UserRejectedRequestError_code
                then throw (UserRejectedRequestError error)
                else throw (SwitchChainError error)))"

subsection \<open>connect\<close>

text \<open>The body of \<open>if (!provider) { ... }\<close>.\<close>

definition construct_provider :: "'w env \<Rightarrow> (unit, 'w) async" where
  "construct_provider E =
     bnd (external ImportMetaKeep (import_metakeep E)) (\<lambda>_.
       if appId E = None \<or> appId E = Some []
       then throw AppIdNotFound
       else
         bnd (record_call NewMetaKeep) (\<lambda>_.
         bnd (external SdkEthereum (sdk_ethereum E)) (\<lambda>_.
         modify (\<lambda>s. s\<lparr>provider := Some \<lparr>handle = constructed s, events = []\<rparr>,
                         constructed := Suc (constructed s)\<rparr>))))"

text \<open>
  \<open>chainId = None\<close> is a call without \<open>chainId\<close>; \<open>0\<close> is falsy as well.  The result
  is \<open>{ accounts, chainId }\<close>.  \<open>connect_try\<close> is the body of the \<open>try\<close> block, for the
  accounts known when it is entered, and \<open>connect_catch\<close> is the \<open>catch\<close> block.
\<close>

definition connect_try :: "'w env \<Rightarrow> nat option \<Rightarrow> string list \<Rightarrow> (string list \<times> nat, 'w) async" where
  "connect_try E chainId accounts0 =
     bnd (if accounts0 = []
          then bnd (external SignerGetAddress (signer_getAddress E)) (\<lambda>a. ret [a])
          else ret accounts0) (\<lambda>accounts.
     bnd (\<lambda>s. post_connect_listeners (provider s) s) (\<lambda>_.
     bnd (getChainId E) (\<lambda>currentChainId.
     bnd (case chainId of
            None \<Rightarrow> ret currentChainId
          | Some c \<Rightarrow>
              if c \<noteq> 0 \<and> currentChainId \<noteq> c
              then bnd (try_catch (switchChain E c)
                          (\<lambda>error.
                             if code error = Some UserRejectedRequestError_code
                             then throw error
                             else ret \<lparr>chain_id = currentChainId\<rparr>))
                       (\<lambda>chain. ret (chain_id chain))
              else ret currentChainId) (\<lambda>currentChainId'.
     bnd (storage_removeItem E disconnected_key) (\<lambda>_.
     ret (accounts, currentChainId'))))))"

definition connect_catch :: "error \<Rightarrow> ('a, 'w) async" where
  "connect_catch error =
     (if code error = Some UserRejectedRequestError_code
      then throw (UserRejectedRequestError error)
      else if code error = Some ResourceUnavailableRpcError_code
      then throw (ResourceUnavailableRpcError error)
      else throw error)"

definition connect :: "'w env \<Rightarrow> nat option \<Rightarrow> bool \<Rightarrow> (string list \<times> nat, 'w) async" where
  "connect E chainId isReconnecting =
     bnd (\<lambda>s. if provider s = None then construct_provider E s else ret () s) (\<lambda>_.
     bnd (if isReconnecting then try_catch (getAccounts E) (\<lambda>_. ret []) else ret []) (\<lambda>accounts0.
     try_catch (connect_try E chainId accounts0) connect_catch))"

subsection \<open>setup, disconnect, isAuthorized\<close>

text \<open>\<open>setup_connector\<close> is the operation \<open>setup\<close>.\<close>

definition setup_connector :: "'w env \<Rightarrow> (unit, 'w) async" where
  "setup_connector E =
     bnd getProvider (\<lambda>p.
       case p of
         None \<Rightarrow> ret ()
       | Some _ \<Rightarrow> provider_on p ''connect'' (this_bind OnConnect))"

definition disconnect :: "'w env \<Rightarrow> (unit, 'w) async" where
  "disconnect E =
     bnd getProvider (\<lambda>p.
     bnd (pre_connect_listeners p) (\<lambda>_.
     storage_setItem E disconnected_key True))"

definition isAuthorized :: "'w env \<Rightarrow> (bool, 'w) async" where
  "isAuthorized E =
     try_catch
       (bnd (storage_getItem E disconnected_key) (\<lambda>isDisconnected.
          if isDisconnected = Some True
          then ret False
          else bnd (getAccounts E) (\<lambda>accounts. ret (accounts \<noteq> []))))
       (\<lambda>_. ret False)"

subsection \<open>The handlers of the provider's events\<close>

text \<open>
  \<open>onConnect\<close> takes \<open>Number(connectInfo.chainId)\<close>, the chain id as a number.
\<close>

definition onConnect :: "'w env \<Rightarrow> nat \<Rightarrow> (unit, 'w) async" where
  "onConnect E chainId =
     bnd (getAccounts E) (\<lambda>accounts.
       if accounts = []
       then ret ()
       else
         bnd (emit (EmitConnect accounts chainId)) (\<lambda>_.
         bnd getProvider (\<lambda>p.
           case p of
             None \<Rightarrow> ret ()
           | Some _ \<Rightarrow> post_connect_listeners p)))"

definition clear_cache :: "(unit, 'w) async" where
  "clear_cache =
     modify (\<lambda>s.
       case localStorage s of
         None \<Rightarrow> s
       | Some m \<Rightarrow>
           s\<lparr>localStorage :=
               Some (m(''MetaKeep_cached_address'' := None, ''MetaKeep_cached_chainId'' := None))\<rparr>)"

text \<open>\<open>error = None\<close> is a call without an argument.\<close>

definition onDisconnect :: "'w env \<Rightarrow> error option \<Rightarrow> (unit, 'w) async" where
  "onDisconnect E error =
     bnd getProvider (\<lambda>p.
     bnd (case error of
            None \<Rightarrow> ret False
          | Some e \<Rightarrow>
              if code e = Some 1013
              then (case p of
                      None \<Rightarrow> ret False
                    | Some _ \<Rightarrow> bnd (getAccounts E) (\<lambda>accounts. ret (accounts \<noteq> [])))
              else ret False) (\<lambda>spurious.
       if spurious
       then ret ()
       else
         bnd clear_cache (\<lambda>_.
         bnd (emit EmitDisconnect) (\<lambda>_.
         pre_connect_listeners p))))"

definition onChainChanged :: "nat \<Rightarrow> (unit, 'w) async" where
  "onChainChanged chainId = emit (EmitChangeChainId chainId)"

text \<open>
  \<open>this.onDisconnect()\<close> and \<open>this.onConnect({ chainId })\<close> are called without
  \<open>await\<close>.
\<close>

definition onAccountsChanged :: "'w env \<Rightarrow> string list \<Rightarrow> (unit, 'w) async" where
  "onAccountsChanged E accounts =
     (if accounts = []
      then not_awaited (onDisconnect E None)
      else (\<lambda>s.
        if connect_listeners s \<noteq> 0
        then bnd (getChainId E) (\<lambda>chainId.
             bnd (not_awaited (onConnect E chainId)) (\<lambda>_.
             storage_removeItem E disconnected_key)) s
        else (case map_getAddress (getAddress E) accounts of
                None \<Rightarrow> throw InvalidAddressError s
              | Some accounts' \<Rightarrow> emit (EmitChangeAccounts accounts') s)))"

subsection \<open>Operations in sequence\<close>

text \<open>
  \<open>created\<close>: the connector as \<open>metaKeep(parameters)\<close> returns it, both variables of
  the closure unassigned.  \<open>promise_ok\<close>: the promise is unassigned or is the one
  \<open>initProvider\<close> made.  \<open>unpopulated\<close>: the provider has not been populated.
\<close>

definition created :: "'w state \<Rightarrow> bool" where
  "created s \<longleftrightarrow> provider s = None \<and> providerPromise s = None"

definition promise_ok :: "'w state \<Rightarrow> bool" where
  "promise_ok s \<longleftrightarrow> providerPromise s = None \<or> providerPromise s = Some None"

definition unpopulated :: "'w state \<Rightarrow> bool" where
  "unpopulated s \<longleftrightarrow> provider s = None \<and> promise_ok s"

text \<open>\<open>keeps I m\<close>: the operation \<open>m\<close> leaves a state in \<open>I\<close> when it starts in one.\<close>

definition keeps :: "('w state \<Rightarrow> bool) \<Rightarrow> ('a, 'w) async \<Rightarrow> bool" where
  "keeps I m \<longleftrightarrow> (\<forall>s. I s \<longrightarrow> I (snd (m s)))"

text \<open>The operations of the connector with their arguments, and the state each leaves.\<close>

datatype operation =
    CallSetup
  | CallConnect "nat option" bool
  | CallDisconnect
  | CallGetAccounts
  | CallGetChainId
  | CallGetProvider
  | CallIsAuthorized
  | CallSwitchChain nat
  | CallOnAccountsChanged "string list"
  | CallOnChainChanged nat
  | CallOnConnect nat
  | CallOnDisconnect "error option"

fun is_connect :: "operation \<Rightarrow> bool" where
  "is_connect (CallConnect chainId isReconnecting) = True"
| "is_connect op = False"

fun run :: "'w env \<Rightarrow> operation \<Rightarrow> 'w state \<Rightarrow> 'w state" where
  "run E CallSetup s = snd (setup_connector E s)"
| "run E (CallConnect chainId isReconnecting) s = snd (connect E chainId isReconnecting s)"
| "run E CallDisconnect s = snd (disconnect E s)"
| "run E CallGetAccounts s = snd (getAccounts E s)"
| "run E CallGetChainId s = snd (getChainId E s)"
| "run E CallGetProvider s = snd (getProvider s)"
| "run E CallIsAuthorized s = snd (isAuthorized E s)"
| "run E (CallSwitchChain c) s = snd (switchChain E c s)"
| "run E (CallOnAccountsChanged accounts) s = snd (onAccountsChanged E accounts s)"
| "run E (CallOnChainChanged c) s = snd (onChainChanged c s)"
| "run E (CallOnConnect c) s = snd (onConnect E c s)"
| "run E (CallOnDisconnect e) s = snd (onDisconnect E e s)"

subsection \<open>A concrete host\<close>

text \<open>
  The host of \<open>App.tsx\<close>: an application id, the one chain 80002 (Polygon Amoy), and an
  outside world in which every call succeeds; the signer owns one address and is on
  chain 80002.  \<open>initial\<close> is the connector as \<open>metaKeep(parameters)\<close> returns it, with an
  empty storage.
\<close>

definition env_amoy :: "unit env" where
  "env_amoy =
     \<lparr>appId = Some ''app'',
      chains = [\<lparr>chain_id = 80002\<rparr>],
      import_metakeep = (\<lambda>w. (Inr (), w)),
      sdk_ethereum = (\<lambda>w. (Inr (), w)),
      signer_getAddress = (\<lambda>w. (Inr ''0xA'', w)),
      signer_getChainId = (\<lambda>w. (Inr 80002, w)),
      provider_send = (\<lambda>c w. (Inr (), w)),
      change_event = (\<lambda>c w. (True, w)),
      storage_fault = (\<lambda>w. (None, w)),
      getAddress = Some\<rparr>"

definition initial :: "unit state" where
  "initial =
     \<lparr>provider = None, providerPromise = None, storage = Some Map.empty,
      localStorage = Some Map.empty, connect_listeners = 0, world = (),
      emitted = [], sdk_calls = [], init_calls = 0, constructed = 0, bound_fns = 0\<rparr>"

text \<open>
  The same host with a signer whose address request the user rejects (code 4001), the
  same host without an application id, and the same connector on a host that
  configured no storage.
\<close>

definition env_rejecting :: "unit env" where
  "env_rejecting = env_amoy\<lparr>signer_getAddress := (\<lambda>w. (Inl (Some 4001), w))\<rparr>"

definition env_without_appId :: "unit env" where
  "env_without_appId = env_amoy\<lparr>appId := None\<rparr>"

text \<open>The host without an application id on which the SDK module fails to load.\<close>

definition env_import_rejected :: "unit env" where
  "env_import_rejected = env_without_appId\<lparr>import_metakeep := (\<lambda>w. (Inl None, w))\<rparr>"

definition initial_without_storage :: "unit state" where
  "initial_without_storage = initial\<lparr>storage := None\<rparr>"

text \<open>The connector after a first \<open>connect\<close>, and after a \<open>disconnect\<close> that follows it.\<close>

definition connected :: "unit state" where
  "connected = snd (connect env_amoy None False initial)"

definition disconnected :: "unit state" where
  "disconnected = snd (disconnect env_amoy connected)"

definition connected_without_storage :: "unit state" where
  "connected_without_storage = snd (connect env_amoy None False initial_without_storage)"

text \<open>The connector after \<open>setup\<close>: no provider, and the promise of \<open>initProvider\<close> assigned.\<close>

definition after_setup :: "unit state" where
  "after_setup = snd (setup_connector env_amoy initial)"

section \<open>Properties\<close>

lemmas m_defs =
  bnd_def ret_def throw_def try_catch_def modify_def record_call_def external_def emit_def
  not_awaited_def

lemmas p_defs =
  post_connect_listeners_def pre_connect_listeners_def
  provider_removeListener_def provider_on_def provider_call_def this_bind_def this_method_def
  on_events_def removeListener_events_def

lemmas g_defs = getProvider_def getProvider_begin_def getProvider_resume_def initProvider_def

lemmas s_defs =
  storage_removeItem_def storage_setItem_def storage_getItem_def storage_write_def
  disconnected_key_def

lemmas connect_defs =
  connect_def connect_try_def connect_catch_def construct_provider_def getChainId_def
  UserRejectedRequestError_code_def ResourceUnavailableRpcError_code_def

subsection \<open>What every operation keeps\<close>

lemma keepsD: "keeps I m \<Longrightarrow> I s \<Longrightarrow> I (snd (m s))"
  by (simp add: keeps_def)

lemma keeps_ret: "keeps I (ret a)"
  by (simp add: keeps_def ret_def)

lemma keeps_throw: "keeps I (throw e)"
  by (simp add: keeps_def throw_def)

lemma keeps_bnd: "keeps I m \<Longrightarrow> (\<And>a. keeps I (f a)) \<Longrightarrow> keeps I (bnd m f)"
  by (auto simp: keeps_def bnd_def split: prod.splits outcome.splits)

lemma keeps_try_catch: "keeps I m \<Longrightarrow> (\<And>e. keeps I (h e)) \<Longrightarrow> keeps I (try_catch m h)"
  by (auto simp: keeps_def try_catch_def split: prod.splits outcome.splits)

lemma keeps_not_awaited: "keeps I m \<Longrightarrow> keeps I (not_awaited m)"
  by (simp add: keeps_def not_awaited_def)

lemma keeps_if: "(c \<Longrightarrow> keeps I a) \<Longrightarrow> (\<not> c \<Longrightarrow> keeps I b) \<Longrightarrow> keeps I (if c then a else b)"
  by simp

lemma keeps_case_option:
  "keeps I a \<Longrightarrow> (\<And>x. keeps I (b x)) \<Longrightarrow> keeps I (case v of None \<Rightarrow> a | Some x \<Rightarrow> b x)"
  by (cases v) simp_all

lemma keeps_read: "(\<And>p. keeps I (m p)) \<Longrightarrow> keeps I (\<lambda>s. m (g s) s)"
  by (simp add: keeps_def)

lemma keeps_if_read:
  "keeps I a \<Longrightarrow> keeps I b \<Longrightarrow> keeps I (\<lambda>s. if c s then a s else b s)"
  by (simp add: keeps_def)

lemma promise_modify:
  "(\<And>s. providerPromise (f s) = providerPromise s) \<Longrightarrow> keeps promise_ok (modify f)"
  by (simp add: keeps_def modify_def promise_ok_def)

lemma promise_emit: "keeps promise_ok (emit ev)"
  unfolding emit_def by (rule promise_modify) simp

lemma promise_record_call: "keeps promise_ok (record_call c)"
  unfolding record_call_def by (rule promise_modify) simp

lemma promise_external: "keeps promise_ok (external c f)"
  by (auto simp: keeps_def external_def promise_ok_def split: prod.splits sum.splits)

lemma promise_storage_write: "keeps promise_ok (storage_write E f)"
  by (auto simp: keeps_def storage_write_def promise_ok_def split: prod.splits option.splits)

lemma promise_storage_getItem: "keeps promise_ok (storage_getItem E k)"
  by (auto simp: keeps_def storage_getItem_def promise_ok_def split: prod.splits option.splits)

lemma promise_await_change: "keeps promise_ok (await_change E c)"
  by (auto simp: keeps_def await_change_def promise_ok_def split: prod.splits bool.splits)

lemma promise_this_bind: "keeps promise_ok (this_bind h)"
  by (simp add: keeps_def this_bind_def promise_ok_def)

lemma promise_this_method: "keeps promise_ok (this_method h)"
  by (simp add: this_method_def keeps_ret)

lemma promise_provider_call:
  "keeps promise_ok arg \<Longrightarrow> keeps promise_ok (provider_call p f arg)"
  unfolding provider_call_def
  by (intro keeps_case_option keeps_throw keeps_bnd promise_modify) simp_all

lemma promise_getProvider: "keeps promise_ok getProvider"
  by (auto simp: keeps_def g_defs promise_ok_def split: option.splits)

lemma promise_clear_cache: "keeps promise_ok clear_cache"
  unfolding clear_cache_def by (rule promise_modify) (simp split: option.splits)

lemmas keeps_intros =
  keeps_ret keeps_throw keeps_bnd keeps_try_catch keeps_not_awaited keeps_if keeps_case_option
  promise_emit promise_record_call promise_external promise_storage_write
  promise_storage_getItem promise_await_change promise_this_bind promise_this_method
  promise_provider_call promise_getProvider promise_clear_cache

lemma promise_post_connect_listeners: "keeps promise_ok (post_connect_listeners p)"
  unfolding post_connect_listeners_def provider_on_def provider_removeListener_def
  by (intro keeps_intros)

lemma promise_pre_connect_listeners: "keeps promise_ok (pre_connect_listeners p)"
  unfolding pre_connect_listeners_def provider_on_def provider_removeListener_def
  by (intro keeps_intros)

lemma promise_getAccounts: "keeps promise_ok (getAccounts E)"
  unfolding getAccounts_def by (intro keeps_intros)

lemma promise_getChainId: "keeps promise_ok (getChainId E)"
  unfolding getChainId_def by (intro keeps_intros)

lemma promise_switchChain: "keeps promise_ok (switchChain E c)"
  unfolding switchChain_def by (intro keeps_intros)

lemma promise_construct_provider: "keeps promise_ok (construct_provider E)"
  unfolding construct_provider_def
  by (intro keeps_intros promise_modify) simp

lemma promise_post_connect_listeners_read:
  "keeps promise_ok (\<lambda>s. post_connect_listeners (provider s) s)"
  by (rule keeps_read) (rule promise_post_connect_listeners)

lemma promise_connect_try: "keeps promise_ok (connect_try E c accounts0)"
  unfolding connect_try_def storage_removeItem_def
  by (intro keeps_intros promise_post_connect_listeners_read promise_getChainId
      promise_switchChain)

lemma promise_connect_catch: "keeps promise_ok (connect_catch e)"
  unfolding connect_catch_def by (intro keeps_intros)

lemma promise_connect_prelude:
  "keeps promise_ok (\<lambda>s. if provider s = None then construct_provider E s else ret () s)"
  by (rule keeps_if_read) (rule promise_construct_provider keeps_ret)+

lemma promise_connect: "keeps promise_ok (connect E c r)"
  unfolding connect_def
  by (intro keeps_intros promise_connect_prelude promise_getAccounts
      promise_connect_try promise_connect_catch)

lemma promise_setup: "keeps promise_ok (setup_connector E)"
  unfolding setup_connector_def provider_on_def by (intro keeps_intros)

lemma promise_disconnect: "keeps promise_ok (disconnect E)"
  unfolding disconnect_def storage_setItem_def
  by (intro keeps_intros promise_pre_connect_listeners)

lemma promise_isAuthorized: "keeps promise_ok (isAuthorized E)"
  unfolding isAuthorized_def by (intro keeps_intros promise_getAccounts)

lemma promise_onConnect: "keeps promise_ok (onConnect E c)"
  unfolding onConnect_def
  by (intro keeps_intros promise_getAccounts promise_post_connect_listeners)

lemma promise_onDisconnect: "keeps promise_ok (onDisconnect E e)"
  unfolding onDisconnect_def
  by (intro keeps_intros promise_getAccounts promise_pre_connect_listeners)

lemma promise_onChainChanged: "keeps promise_ok (onChainChanged c)"
  unfolding onChainChanged_def by (intro keeps_intros)

lemma promise_onAccountsChanged: "keeps promise_ok (onAccountsChanged E accounts)"
proof -
  have a: "keeps promise_ok
      (bnd (getChainId E) (\<lambda>chainId.
       bnd (not_awaited (onConnect E chainId)) (\<lambda>_.
       storage_removeItem E disconnected_key)))"
    unfolding storage_removeItem_def
    by (intro keeps_intros promise_getChainId promise_onConnect)
  have b: "keeps promise_ok
      (case map_getAddress (getAddress E) accounts of
         None \<Rightarrow> throw InvalidAddressError
       | Some accounts' \<Rightarrow> emit (EmitChangeAccounts accounts'))"
    by (intro keeps_intros)
  have c: "keeps promise_ok (not_awaited (onDisconnect E None))"
    by (intro keeps_intros promise_onDisconnect)
  from a b c show ?thesis
    by (auto simp: onAccountsChanged_def keeps_def split: option.splits)
qed

lemma promise_run: "promise_ok s \<Longrightarrow> promise_ok (run E op s)"
  by (cases op)
    (simp_all add: keepsD promise_setup promise_connect promise_disconnect promise_getAccounts
      promise_getChainId promise_getProvider promise_isAuthorized promise_switchChain
      promise_onAccountsChanged promise_onChainChanged promise_onConnect promise_onDisconnect)

lemma promise_fold: "promise_ok s \<Longrightarrow> promise_ok (fold (run E) ops s)"
  by (induction ops arbitrary: s) (simp_all add: promise_run)

subsection \<open>The provider stays absent outside connect\<close>

lemma unpop_setup: "unpopulated s \<Longrightarrow> unpopulated (snd (setup_connector E s))"
  by (auto simp: unpopulated_def promise_ok_def setup_connector_def g_defs m_defs)

lemma unpop_disconnect: "unpopulated s \<Longrightarrow> unpopulated (snd (disconnect E s))"
  by (auto simp: unpopulated_def promise_ok_def disconnect_def g_defs m_defs p_defs)

lemma unpop_getAccounts: "unpopulated s \<Longrightarrow> unpopulated (snd (getAccounts E s))"
  by (auto simp: unpopulated_def promise_ok_def getAccounts_def g_defs m_defs)

lemma unpop_getChainId: "unpopulated s \<Longrightarrow> unpopulated (snd (getChainId E s))"
  by (auto simp: unpopulated_def promise_ok_def getChainId_def g_defs m_defs)

lemma unpop_getProvider: "unpopulated s \<Longrightarrow> unpopulated (snd (getProvider s))"
  by (auto simp: unpopulated_def promise_ok_def g_defs)

lemma unpop_isAuthorized: "unpopulated s \<Longrightarrow> unpopulated (snd (isAuthorized E s))"
  by (auto simp: unpopulated_def promise_ok_def isAuthorized_def getAccounts_def g_defs m_defs s_defs
      split: option.splits prod.splits)

lemma unpop_switchChain: "unpopulated s \<Longrightarrow> unpopulated (snd (switchChain E c s))"
  by (auto simp: unpopulated_def promise_ok_def switchChain_def g_defs m_defs split: option.splits)

lemma unpop_onChainChanged: "unpopulated s \<Longrightarrow> unpopulated (snd (onChainChanged c s))"
  by (auto simp: unpopulated_def promise_ok_def onChainChanged_def m_defs)

lemma unpop_onConnect: "unpopulated s \<Longrightarrow> unpopulated (snd (onConnect E c s))"
  by (auto simp: unpopulated_def promise_ok_def onConnect_def getAccounts_def g_defs m_defs)

lemma unpop_onDisconnect: "unpopulated s \<Longrightarrow> unpopulated (snd (onDisconnect E e s))"
  by (auto simp: unpopulated_def promise_ok_def onDisconnect_def clear_cache_def g_defs m_defs p_defs
      split: option.splits)

lemma unpop_onAccountsChanged:
  assumes "unpopulated s"
  shows "unpopulated (snd (onAccountsChanged E accounts s))"
proof (cases "accounts = []")
  case True
  then show ?thesis
    using unpop_onDisconnect [OF assms, of E None]
    by (simp add: onAccountsChanged_def not_awaited_def)
next
  case False
  then show ?thesis
    using assms
    by (auto simp: onAccountsChanged_def unpopulated_def promise_ok_def getChainId_def g_defs
        bnd_def throw_def emit_def modify_def split: option.splits)
qed

lemma unpop_run: "\<not> is_connect op \<Longrightarrow> unpopulated s \<Longrightarrow> unpopulated (run E op s)"
  by (cases op)
    (simp_all add: unpop_setup unpop_disconnect unpop_getAccounts unpop_getChainId
      unpop_getProvider unpop_isAuthorized unpop_switchChain unpop_onAccountsChanged
      unpop_onChainChanged unpop_onConnect unpop_onDisconnect)

lemma unpop_fold:
  "list_all (\<lambda>op. \<not> is_connect op) ops \<Longrightarrow> unpopulated s \<Longrightarrow> unpopulated (fold (run E) ops s)"
  by (induction ops arbitrary: s) (simp_all add: unpop_run)

lemma created_unpopulated: "created s \<Longrightarrow> unpopulated s"
  by (simp add: created_def unpopulated_def promise_ok_def)

lemma created_fold_unpopulated:
  assumes "created s" and "provider (fold (run E) ops s) = None"
  shows "unpopulated (fold (run E) ops s)"
proof -
  from assms(1) have "promise_ok s"
    by (simp add: created_def promise_ok_def)
  then have "promise_ok (fold (run E) ops s)"
    by (rule promise_fold)
  with assms(2) show ?thesis
    by (simp add: unpopulated_def)
qed

lemma created_initial: "created initial"
  by (simp add: created_def initial_def)

lemma connect_without_appId_initial:
  "connect env_without_appId None False initial =
     (Throw AppIdNotFound, initial\<lparr>sdk_calls := [ImportMetaKeep]\<rparr>)"
  by (simp add: connect_def construct_provider_def m_defs env_without_appId_def env_amoy_def
      initial_def)

lemma failed_connect_history:
  "provider (fold (run env_without_appId)
     [CallSetup, CallConnect None False, CallIsAuthorized] initial) = None"
  by (simp add: setup_connector_def isAuthorized_def getAccounts_def connect_def
      construct_provider_def m_defs g_defs s_defs env_without_appId_def env_amoy_def initial_def)

text \<open>
  C9.  Take a connector as created and any sequence of operations on it, \<open>connect\<close>
  among them or not.  When the provider is not populated afterwards, \<open>getProvider\<close>
  resolves to the absent value and leaves the cached slot empty: its own initializer
  produces no provider.  And when \<open>connect\<close> is not among the operations, the provider
  is not populated afterwards: only \<open>connect\<close> fills the slot.
\<close>

theorem getProvider_absent:
  assumes "created s"
  shows "(provider (fold (run E) ops s) = None \<longrightarrow>
           (\<exists>s'. getProvider (fold (run E) ops s) = (Return None, s') \<and> provider s' = None)) \<and>
         (list_all (\<lambda>op. \<not> is_connect op) ops \<longrightarrow> provider (fold (run E) ops s) = None)"
proof (intro conjI impI)
  assume "provider (fold (run E) ops s) = None"
  with assms have "unpopulated (fold (run E) ops s)"
    by (rule created_fold_unpopulated)
  then show "\<exists>s'. getProvider (fold (run E) ops s) = (Return None, s') \<and> provider s' = None"
    by (auto simp: g_defs unpopulated_def promise_ok_def)
next
  assume "list_all (\<lambda>op. \<not> is_connect op) ops"
  then have "unpopulated (fold (run E) ops s)"
    using created_unpopulated [OF assms] by (rule unpop_fold)
  then show "provider (fold (run E) ops s) = None"
    by (simp add: unpopulated_def)
qed

theorem getProvider_absent_witness:
  "created initial \<and>
   provider (fold (run env_without_appId)
     [CallSetup, CallConnect None False, CallIsAuthorized] initial) = None \<and>
   (\<exists>s'. getProvider (fold (run env_without_appId)
            [CallSetup, CallConnect None False, CallIsAuthorized] initial) = (Return None, s') \<and>
         provider s' = None) \<and>
   list_all (\<lambda>op. \<not> is_connect op) [CallSetup, CallIsAuthorized, CallGetProvider] \<and>
   provider (fold (run env_amoy) [CallSetup, CallIsAuthorized, CallGetProvider] initial) = None"
proof -
  note a = getProvider_absent [OF created_initial, of env_without_appId
      "[CallSetup, CallConnect None False, CallIsAuthorized]"]
  note b = getProvider_absent [OF created_initial, of env_amoy
      "[CallSetup, CallIsAuthorized, CallGetProvider]"]
  have c: "list_all (\<lambda>op. \<not> is_connect op) [CallSetup, CallIsAuthorized, CallGetProvider]"
    by simp
  from a failed_connect_history
  have "\<exists>s'. getProvider (fold (run env_without_appId)
            [CallSetup, CallConnect None False, CallIsAuthorized] initial) = (Return None, s') \<and>
         provider s' = None"
    by blast
  moreover from b c
  have "provider (fold (run env_amoy) [CallSetup, CallIsAuthorized, CallGetProvider] initial) = None"
    by blast
  ultimately show ?thesis
    using created_initial failed_connect_history c by blast
qed

text \<open>
  C10.  Take a connector as created and any sequence of operations on it.  When the
  provider is not populated afterwards, \<open>disconnect\<close>, \<open>getAccounts\<close> and \<open>getChainId\<close>
  each read a method of the absent provider that \<open>getProvider\<close> returned and fail with
  the plain runtime error.
\<close>

theorem absent_provider_TypeError:
  assumes "created s" and "provider (fold (run E) ops s) = None"
  shows "fst (disconnect E (fold (run E) ops s)) = Throw TypeError \<and>
         fst (getAccounts E (fold (run E) ops s)) = Throw TypeError \<and>
         fst (getChainId E (fold (run E) ops s)) = Throw TypeError"
proof -
  from assms have "unpopulated (fold (run E) ops s)"
    by (rule created_fold_unpopulated)
  then show ?thesis
    by (auto simp: unpopulated_def promise_ok_def disconnect_def getAccounts_def getChainId_def
        g_defs m_defs p_defs)
qed

theorem absent_provider_TypeError_witness:
  "created initial \<and>
   provider (fold (run env_without_appId)
     [CallSetup, CallConnect None False, CallIsAuthorized] initial) = None \<and>
   fst (disconnect env_without_appId (fold (run env_without_appId)
     [CallSetup, CallConnect None False, CallIsAuthorized] initial)) = Throw TypeError \<and>
   fst (getAccounts env_without_appId (fold (run env_without_appId)
     [CallSetup, CallConnect None False, CallIsAuthorized] initial)) = Throw TypeError \<and>
   fst (getChainId env_without_appId (fold (run env_without_appId)
     [CallSetup, CallConnect None False, CallIsAuthorized] initial)) = Throw TypeError"
  using absent_provider_TypeError [OF created_initial failed_connect_history]
    created_initial failed_connect_history
  by blast

subsection \<open>Concurrent calls of getProvider\<close>

lemma begin_all_pending:
  "provider s = None \<Longrightarrow> providerPromise s = Some v \<Longrightarrow>
   begin_all n s = (replicate n (Awaiting v), s)"
  by (induction n) (simp_all add: getProvider_begin_def)

lemma resume_all_awaiting:
  "resume_all (replicate n (Awaiting v)) s =
     (replicate n v, if n = 0 then s else s\<lparr>provider := v\<rparr>)"
  by (induction n arbitrary: s) (simp_all add: getProvider_resume_def)

lemma after_setup_eq:
  "after_setup = initial\<lparr>providerPromise := Some None, init_calls := 1\<rparr>"
  by (simp add: after_setup_def setup_connector_def g_defs m_defs initial_def)

text \<open>
  C2, as amended.  Let \<open>n\<close> calls of \<open>getProvider\<close>, at least one, be made on a
  connector with no provider, all before the first of them is resumed.  When no
  creation is pending, \<open>initProvider\<close> runs exactly once; when one is pending, it does not
  run again.  All \<open>n\<close> callers receive the same value, the one that the promise of
  that creation resolves to, and the cached slot is set to it.  The value \<open>initProvider\<close>
  resolves to is the absent one: no SDK client is constructed, no call is made on the
  SDK, and no caller receives a provider handle.
\<close>

theorem getProvider_concurrently_once:
  assumes "provider s = None" and "0 < n" and "getProvider_concurrently n s = (ps, s')"
  shows "(providerPromise s = None \<longrightarrow>
            init_calls s' = Suc (init_calls s) \<and> ps = replicate n (fst (initProvider s)) \<and>
            provider s' = fst (initProvider s)) \<and>
         (\<forall>v. providerPromise s = Some v \<longrightarrow>
            init_calls s' = init_calls s \<and> ps = replicate n v \<and> provider s' = v) \<and>
         fst (initProvider s) = None \<and>
         constructed s' = constructed s \<and> sdk_calls s' = sdk_calls s"
proof -
  from \<open>0 < n\<close> obtain m where n: "n = Suc m"
    by (cases n) auto
  have none: "fst (initProvider s) = None"
    by (simp add: initProvider_def)
  show ?thesis
  proof (cases "providerPromise s")
    case None
    let ?s1 = "s\<lparr>init_calls := Suc (init_calls s), providerPromise := Some None\<rparr>"
    have b: "getProvider_begin s = (Awaiting None, ?s1)"
      using assms(1) None by (simp add: getProvider_begin_def initProvider_def)
    have "begin_all m ?s1 = (replicate m (Awaiting None), ?s1)"
      by (rule begin_all_pending) (simp_all add: assms(1))
    with b have "begin_all n s = (replicate n (Awaiting None), ?s1)"
      by (simp add: n)
    with assms(3) have "resume_all (replicate n (Awaiting None)) ?s1 = (ps, s')"
      by (simp add: getProvider_concurrently_def)
    then have "ps = replicate n None" and "s' = ?s1\<lparr>provider := None\<rparr>"
      by (auto simp add: resume_all_awaiting n simp del: replicate.simps)
    with None none show ?thesis
      by simp
  next
    case (Some v)
    have "begin_all n s = (replicate n (Awaiting v), s)"
      using assms(1) Some by (rule begin_all_pending)
    with assms(3) have "resume_all (replicate n (Awaiting v)) s = (ps, s')"
      by (simp add: getProvider_concurrently_def)
    then have "ps = replicate n v" and "s' = s\<lparr>provider := v\<rparr>"
      by (auto simp add: resume_all_awaiting n simp del: replicate.simps)
    with Some none show ?thesis
      by simp
  qed
qed

theorem getProvider_concurrently_once_witness:
  "provider initial = None \<and> providerPromise initial = None \<and> (0::nat) < 3 \<and>
   init_calls (snd (getProvider_concurrently 3 initial)) = Suc (init_calls initial) \<and>
   fst (getProvider_concurrently 3 initial) = replicate 3 None \<and>
   provider (snd (getProvider_concurrently 3 initial)) = None \<and>
   provider after_setup = None \<and> providerPromise after_setup = Some None \<and> (0::nat) < 2 \<and>
   init_calls (snd (getProvider_concurrently 2 after_setup)) = init_calls after_setup \<and>
   fst (getProvider_concurrently 2 after_setup) = replicate 2 None \<and>
   provider (snd (getProvider_concurrently 2 after_setup)) = None"
proof -
  have i: "provider initial = None" "providerPromise initial = None"
    by (simp_all add: initial_def)
  have a: "provider after_setup = None" "providerPromise after_setup = Some None"
    by (simp_all add: after_setup_eq initial_def)
  note x = getProvider_concurrently_once [of initial 3
      "fst (getProvider_concurrently 3 initial)" "snd (getProvider_concurrently 3 initial)"]
  note y = getProvider_concurrently_once [of after_setup 2
      "fst (getProvider_concurrently 2 after_setup)"
      "snd (getProvider_concurrently 2 after_setup)"]
  from x i have "init_calls (snd (getProvider_concurrently 3 initial)) = Suc (init_calls initial)"
    and "fst (getProvider_concurrently 3 initial) = replicate 3 None"
    and "provider (snd (getProvider_concurrently 3 initial)) = None"
    by simp_all
  moreover from y a
  have "init_calls (snd (getProvider_concurrently 2 after_setup)) = init_calls after_setup"
    and "fst (getProvider_concurrently 2 after_setup) = replicate 2 None"
    and "provider (snd (getProvider_concurrently 2 after_setup)) = None"
    by simp_all
  ultimately show ?thesis
    using i a by simp
qed

text \<open>
  C2 as stated fails on the connector as created: three concurrent calls start one
  creation, but it constructs no SDK client, and every caller receives the absent
  value instead of a provider handle.
\<close>

theorem getProvider_concurrently_once_counterexample:
  "fst (getProvider_concurrently 3 initial) = [None, None, None] \<and>
   provider (snd (getProvider_concurrently 3 initial)) = None \<and>
   init_calls (snd (getProvider_concurrently 3 initial)) = 1 \<and>
   constructed (snd (getProvider_concurrently 3 initial)) = 0 \<and>
   sdk_calls (snd (getProvider_concurrently 3 initial)) = []"
  by (simp add: getProvider_concurrently_def numeral_3_eq_3 getProvider_begin_def
      getProvider_resume_def initProvider_def initial_def)

subsection \<open>Errors raised before the provider is used\<close>

text \<open>
  C3, as amended.  A call of \<open>connect\<close> with no cached provider and no application id
  (absent or empty) first imports the SDK module, and makes no other call to the
  outside.  When the import succeeds, \<open>connect\<close> fails with the configuration error;
  when the import rejects, \<open>connect\<close> fails with the error of the import.  In both
  cases no SDK client is constructed and the provider stays absent.
\<close>

theorem connect_without_appId:
  assumes "provider s = None" and "appId E = None \<or> appId E = Some []"
  shows "\<exists>s'. connect E chainId isReconnecting s =
           (case fst (import_metakeep E (world s)) of
              Inl c \<Rightarrow> Throw (ExternalError c)
            | Inr u \<Rightarrow> Throw AppIdNotFound, s') \<and>
         provider s' = None \<and> constructed s' = constructed s \<and>
         sdk_calls s' = sdk_calls s @ [ImportMetaKeep] \<and>
         world s' = snd (import_metakeep E (world s))"
proof (cases "import_metakeep E (world s)")
  case (Pair r w')
  then show ?thesis
    using assms
    by (cases r) (auto simp: connect_def construct_provider_def m_defs)
qed

theorem connect_without_appId_witness:
  "provider initial = None \<and> appId env_without_appId = None \<and>
   fst (import_metakeep env_without_appId (world initial)) = Inr () \<and>
   (\<exists>s'. connect env_without_appId None False initial = (Throw AppIdNotFound, s') \<and>
        provider s' = None \<and> constructed s' = constructed initial \<and>
        sdk_calls s' = sdk_calls initial @ [ImportMetaKeep])"
  using connect_without_appId [of initial env_without_appId None False]
  by (simp add: initial_def env_without_appId_def env_amoy_def)

text \<open>
  C3 as stated fails when the SDK module does not load: the import comes before the
  check of the application id, and \<open>connect\<close> fails with the error of the import, not
  with the configuration error.
\<close>

theorem connect_without_appId_counterexample:
  "provider initial = None \<and> appId env_import_rejected = None \<and>
   fst (connect env_import_rejected None False initial) = Throw (ExternalError None) \<and>
   fst (connect env_import_rejected None False initial) \<noteq> Throw AppIdNotFound \<and>
   sdk_calls (snd (connect env_import_rejected None False initial)) = [ImportMetaKeep]"
  by (simp add: connect_def construct_provider_def m_defs env_import_rejected_def
      env_without_appId_def env_amoy_def initial_def)

text \<open>
  C7.  A call of \<open>switchChain\<close> with a chain id that is not among the configured chains
  fails with the switch-chain error that wraps the chain-not-configured error, and
  makes no request to the provider: no call to the outside is recorded and the
  outside world is left as it was.  The witness is the scenario of the specification:
  chain 137 requested, chain 80002 configured.
\<close>

theorem switchChain_not_configured:
  "chainId \<notin> chain_id ` set (chains E) \<Longrightarrow>
   \<exists>s'. switchChain E chainId s = (Throw (SwitchChainError ChainNotConfiguredError), s') \<and>
        sdk_calls s' = sdk_calls s \<and> world s' = world s"
proof -
  assume "chainId \<notin> chain_id ` set (chains E)"
  then have f: "find (\<lambda>x. chain_id x = chainId) (chains E) = None"
    by (auto simp: find_None_iff)
  show ?thesis
    by (simp add: switchChain_def f g_defs m_defs split: option.split)
qed

theorem switchChain_not_configured_witness:
  "137 \<notin> chain_id ` set (chains env_amoy) \<and>
   (\<exists>s'. switchChain env_amoy 137 initial
            = (Throw (SwitchChainError ChainNotConfiguredError), s') \<and>
        sdk_calls s' = sdk_calls initial \<and> world s' = world initial)"
  using switchChain_not_configured [of 137 env_amoy initial]
  by (simp add: env_amoy_def)

subsection \<open>Sequencing, frames and the two exchanges of listeners\<close>

lemma bnd_ReturnE:
  assumes "bnd m f s = (Return b, s')"
  obtains a s1 where "m s = (Return a, s1)" and "f a s1 = (Return b, s')"
  using assms by (auto simp: bnd_def split: prod.splits outcome.splits)

lemma try_catch_ReturnE:
  assumes "try_catch m h s = (Return b, s')"
  obtains "m s = (Return b, s')"
  | e s1 where "m s = (Throw e, s1)" and "h e s1 = (Return b, s')"
  using assms by (auto simp: try_catch_def split: prod.splits outcome.splits)

lemma connect_catch_throws: "fst (connect_catch e s) \<noteq> Return b"
  by (simp add: connect_catch_def throw_def)

lemma external_frame:
  "external c f s = (r, s') \<Longrightarrow> provider s' = provider s \<and> storage s' = storage s"
  by (auto simp: external_def split: prod.splits sum.splits)

lemma storage_write_frame:
  "storage_write E f s = (r, s') \<Longrightarrow> provider s' = provider s"
  by (auto simp: storage_write_def split: prod.splits option.splits)

lemma getChainId_frame:
  "provider s = Some p \<Longrightarrow> getChainId E s = (r, s') \<Longrightarrow> provider s' = Some p"
  by (auto simp: getChainId_def g_defs m_defs split: prod.splits sum.splits)

lemma switchChain_frame:
  "provider s = Some p \<Longrightarrow> switchChain E c s = (r, s') \<Longrightarrow> provider s' = Some p"
  by (auto simp: switchChain_def await_change_def g_defs m_defs
      split: prod.splits sum.splits option.splits bool.splits if_splits)

lemma construct_provider_Return:
  "construct_provider E s = (Return u, s') \<Longrightarrow>
   provider s' = Some \<lparr>handle = constructed s, events = []\<rparr>"
  by (auto simp: construct_provider_def m_defs split: prod.splits sum.splits if_splits)

lemma post_connect_listeners_Some:
  "provider s = Some p \<Longrightarrow>
   post_connect_listeners (provider s) s =
     (Return (),
      s\<lparr>bound_fns := Suc (Suc (Suc (bound_fns s))),
        provider := Some (p\<lparr>events :=
          remove1 (''connect'', BoundFn OnConnect (bound_fns s)) (events p) @
          [(''accountsChanged'', BoundFn OnAccountsChanged (Suc (bound_fns s))),
           (''chainChanged'', MethodFn OnChainChanged),
           (''disconnect'', BoundFn OnDisconnect (Suc (Suc (bound_fns s))))]\<rparr>)\<rparr>)"
  by (simp add: p_defs m_defs)

lemma pre_connect_listeners_Some:
  "provider s = Some p \<Longrightarrow>
   pre_connect_listeners (provider s) s =
     (Return (),
      s\<lparr>bound_fns := Suc (Suc (Suc (bound_fns s))),
        provider := Some (p\<lparr>events :=
          remove1 (''disconnect'', BoundFn OnDisconnect (Suc (bound_fns s)))
            (remove1 (''chainChanged'', MethodFn OnChainChanged)
              (remove1 (''accountsChanged'', BoundFn OnAccountsChanged (bound_fns s)) (events p))) @
          [(''connect'', BoundFn OnConnect (Suc (Suc (bound_fns s))))]\<rparr>)\<rparr>)"
  by (simp add: p_defs m_defs)

lemma pre_connect_listeners_None: "pre_connect_listeners None s = (Throw TypeError, s)"
  by (simp add: p_defs m_defs)

lemma getProvider_Return_Some:
  "getProvider s = (Return (Some q), s') \<Longrightarrow>
   provider s' = Some q \<and> storage s' = storage s \<and> (\<forall>p. provider s = Some p \<longrightarrow> q = p)"
  by (auto simp: g_defs split: option.splits)

lemma storage_write_Return:
  "storage_write E f s = (Return u, s') \<Longrightarrow>
   storage s' = map_option f (storage s) \<and> provider s' = provider s"
  by (auto simp: storage_write_def split: prod.splits option.splits)
lemma getAccounts_Some:
  "provider s = Some p \<Longrightarrow>
   getAccounts E s =
     (case signer_getAddress E (world s) of
        (Inl e, w') \<Rightarrow>
          (Throw (ExternalError e), s\<lparr>world := w', sdk_calls := sdk_calls s @ [SignerGetAddress]\<rparr>)
      | (Inr a, w') \<Rightarrow>
          (case getAddress E a of
             None \<Rightarrow> (Throw InvalidAddressError,
                         s\<lparr>world := w', sdk_calls := sdk_calls s @ [SignerGetAddress]\<rparr>)
           | Some y \<Rightarrow> (Return [y],
                         s\<lparr>world := w', sdk_calls := sdk_calls s @ [SignerGetAddress]\<rparr>)))"
  by (simp add: getAccounts_def g_defs m_defs split: prod.splits sum.splits option.splits)

lemma getAccounts_frame:
  "provider s = Some p \<Longrightarrow> getAccounts E s = (r, s') \<Longrightarrow>
   provider s' = Some p \<and> emitted s' = emitted s \<and> storage s' = storage s"
  by (auto simp: getAccounts_Some split: prod.splits sum.splits option.splits)

lemma getAccounts_settles: "fst (getAccounts E s) \<noteq> Hang"
  by (auto simp: getAccounts_def g_defs m_defs split: prod.splits sum.splits option.splits)

lemma storage_getItem_settles: "fst (storage_getItem E k s) \<noteq> Hang"
  by (auto simp: s_defs split: prod.splits option.splits)

lemma storage_getItem_flag:
  "storage s = Some m \<Longrightarrow> storage_getItem E k s = (Return v, s') \<Longrightarrow> v = m k"
  by (auto simp: s_defs split: prod.splits option.splits)

lemma listener_set_events:
  "listener_set (p\<lparr>events := es\<rparr>) = fst ` set es"
  by (simp add: listener_set_def)

lemma connect_not_post: "''connect'' \<notin> post_connect_set"
  by (simp add: post_connect_set_def)

lemma post_connect_listeners_set:
  assumes "provider s = Some p" and "post_connect_listeners (provider s) s = (r, s1)"
  shows "\<exists>p1. provider s1 = Some p1 \<and> handle p1 = handle p \<and>
           post_connect_set \<subseteq> listener_set p1 \<and>
           (events p = [] \<longrightarrow> listener_set p1 = post_connect_set)"
  using assms(2) unfolding post_connect_listeners_Some [OF assms(1)]
  by (auto simp: listener_set_events post_connect_set_def)
lemma connect_in_pre: "''connect'' \<in> fst ` set (es @ [(''connect'', l)])"
  by simp

subsection \<open>The concrete host, step by step\<close>

lemma connect_initial:
  "connect env_amoy None False initial =
     (Return ([''0xA''], 80002),
      \<lparr>provider = Some \<lparr>handle = 0, events =
          [(''accountsChanged'', BoundFn OnAccountsChanged 1),
           (''chainChanged'', MethodFn OnChainChanged),
           (''disconnect'', BoundFn OnDisconnect 2)]\<rparr>,
       providerPromise = None, storage = Some Map.empty,
       localStorage = Some Map.empty, connect_listeners = 0, world = (),
       emitted = [],
       sdk_calls = [ImportMetaKeep, NewMetaKeep, SdkEthereum, SignerGetAddress, SignerGetChainId],
       init_calls = 0, constructed = 1, bound_fns = 3\<rparr>)"
  by (simp add: connect_defs m_defs p_defs g_defs s_defs env_amoy_def initial_def)

lemma connected_eq:
  "connected =
      \<lparr>provider = Some \<lparr>handle = 0, events =
          [(''accountsChanged'', BoundFn OnAccountsChanged 1),
           (''chainChanged'', MethodFn OnChainChanged),
           (''disconnect'', BoundFn OnDisconnect 2)]\<rparr>,
       providerPromise = None, storage = Some Map.empty,
       localStorage = Some Map.empty, connect_listeners = 0, world = (),
       emitted = [],
       sdk_calls = [ImportMetaKeep, NewMetaKeep, SdkEthereum, SignerGetAddress, SignerGetChainId],
       init_calls = 0, constructed = 1, bound_fns = 3\<rparr>"
  by (simp add: connected_def connect_initial)

lemma disconnect_connected:
  "disconnect env_amoy connected =
     (Return (),
      \<lparr>provider = Some \<lparr>handle = 0, events =
          [(''accountsChanged'', BoundFn OnAccountsChanged 1),
           (''disconnect'', BoundFn OnDisconnect 2),
           (''connect'', BoundFn OnConnect 5)]\<rparr>,
       providerPromise = None, storage = Some [disconnected_key \<mapsto> True],
       localStorage = Some Map.empty, connect_listeners = 0, world = (),
       emitted = [],
       sdk_calls = [ImportMetaKeep, NewMetaKeep, SdkEthereum, SignerGetAddress, SignerGetChainId],
       init_calls = 0, constructed = 1, bound_fns = 6\<rparr>)"
  unfolding connected_eq
  by (simp add: disconnect_def m_defs p_defs g_defs s_defs env_amoy_def)

lemma disconnected_eq:
  "disconnected =
      \<lparr>provider = Some \<lparr>handle = 0, events =
          [(''accountsChanged'', BoundFn OnAccountsChanged 1),
           (''disconnect'', BoundFn OnDisconnect 2),
           (''connect'', BoundFn OnConnect 5)]\<rparr>,
       providerPromise = None, storage = Some [disconnected_key \<mapsto> True],
       localStorage = Some Map.empty, connect_listeners = 0, world = (),
       emitted = [],
       sdk_calls = [ImportMetaKeep, NewMetaKeep, SdkEthereum, SignerGetAddress, SignerGetChainId],
       init_calls = 0, constructed = 1, bound_fns = 6\<rparr>"
  by (simp add: disconnected_def disconnect_connected)

lemma connect_disconnected:
  "connect env_amoy None False disconnected =
     (Return ([''0xA''], 80002),
      \<lparr>provider = Some \<lparr>handle = 0, events =
          [(''accountsChanged'', BoundFn OnAccountsChanged 1),
           (''disconnect'', BoundFn OnDisconnect 2),
           (''connect'', BoundFn OnConnect 5),
           (''accountsChanged'', BoundFn OnAccountsChanged 7),
           (''chainChanged'', MethodFn OnChainChanged),
           (''disconnect'', BoundFn OnDisconnect 8)]\<rparr>,
       providerPromise = None, storage = Some Map.empty,
       localStorage = Some Map.empty, connect_listeners = 0, world = (),
       emitted = [],
       sdk_calls = [ImportMetaKeep, NewMetaKeep, SdkEthereum, SignerGetAddress, SignerGetChainId,
                    SignerGetAddress, SignerGetChainId],
       init_calls = 0, constructed = 1, bound_fns = 9\<rparr>)"
  unfolding disconnected_eq
  by (simp add: connect_defs m_defs p_defs g_defs s_defs env_amoy_def)

lemma connect_rejecting:
  "connect env_rejecting None False initial =
     (Throw (UserRejectedRequestError (ExternalError (Some 4001))),
      \<lparr>provider = Some \<lparr>handle = 0, events = []\<rparr>,
       providerPromise = None, storage = Some Map.empty,
       localStorage = Some Map.empty, connect_listeners = 0, world = (),
       emitted = [],
       sdk_calls = [ImportMetaKeep, NewMetaKeep, SdkEthereum, SignerGetAddress],
       init_calls = 0, constructed = 1, bound_fns = 0\<rparr>)"
  by (simp add: connect_defs m_defs p_defs g_defs s_defs env_rejecting_def env_amoy_def initial_def)

lemma connect_initial_without_storage:
  "connect env_amoy None False initial_without_storage =
     (Return ([''0xA''], 80002),
      \<lparr>provider = Some \<lparr>handle = 0, events =
          [(''accountsChanged'', BoundFn OnAccountsChanged 1),
           (''chainChanged'', MethodFn OnChainChanged),
           (''disconnect'', BoundFn OnDisconnect 2)]\<rparr>,
       providerPromise = None, storage = None,
       localStorage = Some Map.empty, connect_listeners = 0, world = (),
       emitted = [],
       sdk_calls = [ImportMetaKeep, NewMetaKeep, SdkEthereum, SignerGetAddress, SignerGetChainId],
       init_calls = 0, constructed = 1, bound_fns = 3\<rparr>)"
  by (simp add: connect_defs m_defs p_defs g_defs s_defs env_amoy_def initial_def
      initial_without_storage_def)

lemma disconnect_connected_without_storage:
  "disconnect env_amoy connected_without_storage =
     (Return (),
      \<lparr>provider = Some \<lparr>handle = 0, events =
          [(''accountsChanged'', BoundFn OnAccountsChanged 1),
           (''disconnect'', BoundFn OnDisconnect 2),
           (''connect'', BoundFn OnConnect 5)]\<rparr>,
       providerPromise = None, storage = None,
       localStorage = Some Map.empty, connect_listeners = 0, world = (),
       emitted = [],
       sdk_calls = [ImportMetaKeep, NewMetaKeep, SdkEthereum, SignerGetAddress, SignerGetChainId],
       init_calls = 0, constructed = 1, bound_fns = 6\<rparr>)"
  unfolding connected_without_storage_def connect_initial_without_storage snd_conv
  by (simp add: disconnect_def m_defs p_defs g_defs s_defs env_amoy_def)


lemma onDisconnect_connected:
  "onDisconnect env_amoy None connected =
     (Return (),
      \<lparr>provider = Some \<lparr>handle = 0, events =
          [(''accountsChanged'', BoundFn OnAccountsChanged 1),
           (''disconnect'', BoundFn OnDisconnect 2),
           (''connect'', BoundFn OnConnect 5)]\<rparr>,
       providerPromise = None, storage = Some Map.empty,
       localStorage = Some Map.empty, connect_listeners = 0, world = (),
       emitted = [EmitDisconnect],
       sdk_calls = [ImportMetaKeep, NewMetaKeep, SdkEthereum, SignerGetAddress, SignerGetChainId],
       init_calls = 0, constructed = 1, bound_fns = 6\<rparr>)"
  unfolding connected_eq
  by (simp add: onDisconnect_def clear_cache_def m_defs p_defs g_defs)

subsection \<open>The listeners after connect\<close>

lemma connect_tail_frame:
  assumes "provider s = Some p"
    and "bnd (getChainId E) (\<lambda>currentChainId.
     bnd (case chainId of
            None \<Rightarrow> ret currentChainId
          | Some c \<Rightarrow>
              if c \<noteq> 0 \<and> currentChainId \<noteq> c
              then bnd (try_catch (switchChain E c)
                          (\<lambda>error.
                             if code error = Some UserRejectedRequestError_code
                             then throw error
                             else ret \<lparr>chain_id = currentChainId\<rparr>))
                       (\<lambda>chain. ret (chain_id chain))
              else ret currentChainId) (\<lambda>currentChainId'.
     bnd (storage_removeItem E disconnected_key) (\<lambda>_.
     ret (accounts, currentChainId')))) s = (Return res, s')"
  shows "provider s' = Some p"
proof -
  from assms(2) obtain cur s1 where 1: "getChainId E s = (Return cur, s1)"
    and r1: "bnd (case chainId of
            None \<Rightarrow> ret cur
          | Some c \<Rightarrow>
              if c \<noteq> 0 \<and> cur \<noteq> c
              then bnd (try_catch (switchChain E c)
                          (\<lambda>error.
                             if code error = Some UserRejectedRequestError_code
                             then throw error
                             else ret \<lparr>chain_id = cur\<rparr>))
                       (\<lambda>chain. ret (chain_id chain))
              else ret cur) (\<lambda>currentChainId'.
     bnd (storage_removeItem E disconnected_key) (\<lambda>_.
     ret (accounts, currentChainId'))) s1 = (Return res, s')"
    by (rule bnd_ReturnE)
  have p1: "provider s1 = Some p"
    using getChainId_frame [OF assms(1) 1] .
  from r1 obtain cur' s2 where 2: "(case chainId of
            None \<Rightarrow> ret cur
          | Some c \<Rightarrow>
              if c \<noteq> 0 \<and> cur \<noteq> c
              then bnd (try_catch (switchChain E c)
                          (\<lambda>error.
                             if code error = Some UserRejectedRequestError_code
                             then throw error
                             else ret \<lparr>chain_id = cur\<rparr>))
                       (\<lambda>chain. ret (chain_id chain))
              else ret cur) s1 = (Return cur', s2)"
    and r2: "bnd (storage_removeItem E disconnected_key) (\<lambda>_. ret (accounts, cur')) s2
               = (Return res, s')"
    by (rule bnd_ReturnE)
  have p2: "provider s2 = Some p"
  proof (cases "\<exists>c. chainId = Some c \<and> c \<noteq> 0 \<and> cur \<noteq> c")
    case False
    with 2 p1 show ?thesis
      by (auto simp: ret_def split: option.splits if_splits)
  next
    case True
    then obtain c where c: "chainId = Some c" "c \<noteq> 0" "cur \<noteq> c" by blast
    obtain r3 s3 where 3: "switchChain E c s1 = (r3, s3)"
      by (cases "switchChain E c s1")
    have "provider s3 = Some p"
      using switchChain_frame [OF p1 3] .
    with 2 c 3 show ?thesis
      by (auto simp: bnd_def try_catch_def ret_def throw_def split: outcome.splits if_splits)
  qed
  from r2 obtain u s4 where 4: "storage_removeItem E disconnected_key s2 = (Return u, s4)"
    and "ret (accounts, cur') s4 = (Return res, s')"
    by (rule bnd_ReturnE)
  then have "s' = s4" by (simp add: ret_def)
  with storage_write_frame [OF 4 [unfolded storage_removeItem_def]] p2 show ?thesis
    by simp
qed

lemma connect_try_listener_set:
  assumes "provider s = Some p" and "connect_try E chainId accounts0 s = (Return res, s')"
  shows "\<exists>p'. provider s' = Some p' \<and> handle p' = handle p \<and>
           post_connect_set \<subseteq> listener_set p' \<and>
           (events p = [] \<longrightarrow> listener_set p' = post_connect_set)"
proof -
  from assms(2) [unfolded connect_try_def] obtain accounts s1 where
    1: "(if accounts0 = []
          then bnd (external SignerGetAddress (signer_getAddress E)) (\<lambda>a. ret [a])
          else ret accounts0) s = (Return accounts, s1)"
    and r1: "bnd (\<lambda>s. post_connect_listeners (provider s) s) (\<lambda>_.
     bnd (getChainId E) (\<lambda>currentChainId.
     bnd (case chainId of
            None \<Rightarrow> ret currentChainId
          | Some c \<Rightarrow>
              if c \<noteq> 0 \<and> currentChainId \<noteq> c
              then bnd (try_catch (switchChain E c)
                          (\<lambda>error.
                             if code error = Some UserRejectedRequestError_code
                             then throw error
                             else ret \<lparr>chain_id = currentChainId\<rparr>))
                       (\<lambda>chain. ret (chain_id chain))
              else ret currentChainId) (\<lambda>currentChainId'.
     bnd (storage_removeItem E disconnected_key) (\<lambda>_.
     ret (accounts, currentChainId'))))) s1 = (Return res, s')"
    by (rule bnd_ReturnE)
  have p1: "provider s1 = Some p"
    using 1 assms(1)
    by (auto simp: bnd_def ret_def external_def split: if_splits prod.splits sum.splits)
  from r1 obtain u s2 where 2: "post_connect_listeners (provider s1) s1 = (Return u, s2)"
    and r2: "bnd (getChainId E) (\<lambda>currentChainId.
     bnd (case chainId of
            None \<Rightarrow> ret currentChainId
          | Some c \<Rightarrow>
              if c \<noteq> 0 \<and> currentChainId \<noteq> c
              then bnd (try_catch (switchChain E c)
                          (\<lambda>error.
                             if code error = Some UserRejectedRequestError_code
                             then throw error
                             else ret \<lparr>chain_id = currentChainId\<rparr>))
                       (\<lambda>chain. ret (chain_id chain))
              else ret currentChainId) (\<lambda>currentChainId'.
     bnd (storage_removeItem E disconnected_key) (\<lambda>_.
     ret (accounts, currentChainId')))) s2 = (Return res, s')"
    by (rule bnd_ReturnE)
  from post_connect_listeners_set [OF p1 2] obtain p2 where
    p2: "provider s2 = Some p2" "handle p2 = handle p" "post_connect_set \<subseteq> listener_set p2"
      "events p = [] \<longrightarrow> listener_set p2 = post_connect_set"
    by blast
  have "provider s' = Some p2"
    using connect_tail_frame [OF p2(1) r2] .
  with p2 show ?thesis by blast
qed

text \<open>
  C1, as amended.  After every successful call of \<open>connect\<close> the provider has
  listeners for \<open>accountsChanged\<close>, \<open>chainChanged\<close> and \<open>disconnect\<close>.  When the call
  itself constructed the provider (none was cached before), the listener set is exactly
  these three and does not include \<open>connect\<close>, so that exactly one of the two sets is
  attached.
\<close>

theorem connect_listener_set:
  assumes "connect E chainId isReconnecting s = (Return res, s')"
  shows "\<exists>p'. provider s' = Some p' \<and> post_connect_set \<subseteq> listener_set p' \<and>
           (provider s = None \<longrightarrow>
              listener_set p' = post_connect_set \<and> ''connect'' \<notin> listener_set p')"
proof -
  from assms [unfolded connect_def] obtain u s1 where
    1: "(if provider s = None then construct_provider E s else ret () s) = (Return u, s1)"
    and r1: "bnd (if isReconnecting then try_catch (getAccounts E) (\<lambda>_. ret []) else ret [])
               (\<lambda>accounts0. try_catch (connect_try E chainId accounts0) connect_catch) s1
             = (Return res, s')"
    by (rule bnd_ReturnE)
  from 1 obtain p1 where p1: "provider s1 = Some p1" "provider s = None \<longrightarrow> events p1 = []"
    by (cases "provider s") (auto simp: ret_def dest: construct_provider_Return)
  from r1 obtain accounts0 s2 where
    2: "(if isReconnecting then try_catch (getAccounts E) (\<lambda>_. ret []) else ret []) s1
          = (Return accounts0, s2)"
    and r2: "try_catch (connect_try E chainId accounts0) connect_catch s2 = (Return res, s')"
    by (rule bnd_ReturnE)
  have p2: "provider s2 = Some p1"
  proof (cases isReconnecting)
    case False
    with 2 p1 show ?thesis by (simp add: ret_def)
  next
    case True
    obtain r3 s3 where 3: "getAccounts E s1 = (r3, s3)"
      by (cases "getAccounts E s1")
    from getAccounts_frame [OF p1(1) 3] have "provider s3 = Some p1" by simp
    with 2 True 3 show ?thesis
      by (auto simp: try_catch_def ret_def split: outcome.splits)
  qed
  from r2 have "connect_try E chainId accounts0 s2 = (Return res, s')"
  proof (rule try_catch_ReturnE)
    fix e s3
    assume "connect_catch e s3 = (Return res, s')"
    with connect_catch_throws [of e s3 res] show ?thesis by simp
  qed
  from connect_try_listener_set [OF p2 this] obtain p' where
    p': "provider s' = Some p'" "post_connect_set \<subseteq> listener_set p'"
      "events p1 = [] \<longrightarrow> listener_set p' = post_connect_set"
    by blast
  have h: "provider s = None \<longrightarrow> listener_set p' = post_connect_set"
    using p'(3) p1(2) by simp
  show ?thesis
    by (rule exI [of _ p']) (simp add: p'(1,2) h connect_not_post)
qed

theorem connect_listener_set_witness:
  "connect env_amoy None False initial = (Return ([''0xA''], 80002), connected) \<and>
   provider initial = None \<and>
   (\<exists>p'. provider connected = Some p' \<and> post_connect_set \<subseteq> listener_set p' \<and>
         listener_set p' = post_connect_set \<and> ''connect'' \<notin> listener_set p')"
proof -
  have c: "connect env_amoy None False initial = (Return ([''0xA''], 80002), connected)"
    by (simp add: connected_def connect_initial)
  have n: "provider initial = None"
    by (simp add: initial_def)
  from connect_listener_set [OF c] n
  have "\<exists>p'. provider connected = Some p' \<and> post_connect_set \<subseteq> listener_set p' \<and>
         listener_set p' = post_connect_set \<and> ''connect'' \<notin> listener_set p'"
    by simp
  with c n show ?thesis
    by simp
qed

text \<open>
  C1 as stated fails in two ways.  A \<open>connect\<close> whose address request is rejected
  leaves the provider it constructed in the cache with no listener: neither set is
  attached while a provider exists.  And after \<open>connect\<close>, \<open>disconnect\<close>, \<open>connect\<close>,
  all successful, the \<open>connect\<close> listener that \<open>disconnect\<close> attached is still there
  beside the three others: \<open>removeListener\<close> was given a new function object, made
  by \<open>bind\<close>, that was never registered.
\<close>

theorem connect_listener_set_counterexample:
  "fst (connect env_rejecting None False initial)
     = Throw (UserRejectedRequestError (ExternalError (Some 4001))) \<and>
   map_option listener_set (provider (snd (connect env_rejecting None False initial))) = Some {} \<and>
   fst (connect env_amoy None False disconnected) = Return ([''0xA''], 80002) \<and>
   map_option listener_set (provider (snd (connect env_amoy None False disconnected)))
     = Some (pre_connect_set \<union> post_connect_set)"
  by (simp add: connect_rejecting connect_disconnected listener_set_def pre_connect_set_def
      post_connect_set_def insert_commute)

subsection \<open>The effect of disconnect\<close>

text \<open>
  C4, as amended.  After every successful call of \<open>disconnect\<close> a \<open>connect\<close> listener
  is attached to the provider, the cached provider is still the same provider, and the
  flag \<open>metaKeep.disconnected\<close> is \<open>true\<close> in the storage of the host when the host
  configured one; without a storage nothing is persisted.
\<close>

theorem disconnect_effect:
  assumes "disconnect E s = (Return u, s')"
  shows "\<exists>p'. provider s' = Some p' \<and> ''connect'' \<in> listener_set p' \<and>
           (\<forall>p. provider s = Some p \<longrightarrow> handle p' = handle p) \<and>
           storage s' = map_option (\<lambda>m. m(disconnected_key \<mapsto> True)) (storage s)"
proof -
  from assms [unfolded disconnect_def] obtain p s1 where
    1: "getProvider s = (Return p, s1)"
    and r1: "bnd (pre_connect_listeners p) (\<lambda>_. storage_setItem E disconnected_key True) s1
              = (Return u, s')"
    by (rule bnd_ReturnE)
  from r1 obtain u1 s2 where
    2: "pre_connect_listeners p s1 = (Return u1, s2)"
    and 3: "storage_setItem E disconnected_key True s2 = (Return u, s')"
    by (rule bnd_ReturnE)
  from 2 obtain q where q: "p = Some q"
    by (cases p) (auto simp: pre_connect_listeners_None)
  from getProvider_Return_Some [OF 1 [unfolded q]] have
    p1: "provider s1 = Some q" and st1: "storage s1 = storage s"
    and same: "\<forall>p. provider s = Some p \<longrightarrow> q = p"
    by simp_all
  from 2 q p1 have pc: "pre_connect_listeners (provider s1) s1 = (Return u1, s2)"
    by simp
  let ?es = "remove1 (''disconnect'', BoundFn OnDisconnect (Suc (bound_fns s1)))
            (remove1 (''chainChanged'', MethodFn OnChainChanged)
              (remove1 (''accountsChanged'', BoundFn OnAccountsChanged (bound_fns s1)) (events q)))"
  let ?q = "q\<lparr>events := ?es @ [(''connect'', BoundFn OnConnect (Suc (Suc (bound_fns s1))))]\<rparr>"
  from pc have p2: "provider s2 = Some ?q" and st2: "storage s2 = storage s1"
    unfolding pre_connect_listeners_Some [OF p1] by auto
  from storage_write_Return [OF 3 [unfolded storage_setItem_def]] have
    "storage s' = map_option (\<lambda>m. m(disconnected_key \<mapsto> True)) (storage s2)"
    and "provider s' = provider s2"
    by simp_all
  with p2 st2 st1 have a: "provider s' = Some ?q"
    and b: "storage s' = map_option (\<lambda>m. m(disconnected_key \<mapsto> True)) (storage s)"
    by simp_all
  have c: "''connect'' \<in> listener_set ?q"
    unfolding listener_set_events by (rule connect_in_pre)
  have d: "\<forall>p. provider s = Some p \<longrightarrow> handle ?q = handle p"
    using same by simp
  from a b c d show ?thesis
    by (intro exI [of _ ?q] conjI)
qed

theorem disconnect_effect_witness:
  "fst (disconnect env_amoy connected) = Return () \<and>
   (\<exists>p'. provider disconnected = Some p' \<and> ''connect'' \<in> listener_set p' \<and> handle p' = 0) \<and>
   storage disconnected = Some [disconnected_key \<mapsto> True]"
  using disconnect_effect [of env_amoy connected "()" disconnected]
  by (simp add: disconnect_connected disconnected_def)

text \<open>
  C4 as stated fails on a host without storage, after a successful \<open>connect\<close>:
  \<open>disconnect\<close> succeeds, no flag is persisted, and the listener set is not
  \<open>{connect}\<close>, because the \<open>accountsChanged\<close> and \<open>disconnect\<close> listeners were
  registered as function objects made by \<open>bind\<close> and \<open>removeListener\<close> is given new
  ones.
\<close>

theorem disconnect_effect_counterexample:
  "fst (disconnect env_amoy connected_without_storage) = Return () \<and>
   storage (snd (disconnect env_amoy connected_without_storage)) = None \<and>
   map_option listener_set (provider (snd (disconnect env_amoy connected_without_storage)))
     = Some {''accountsChanged'', ''disconnect'', ''connect''} \<and>
   map_option listener_set (provider (snd (disconnect env_amoy connected_without_storage)))
     \<noteq> Some pre_connect_set"
  by (simp add: disconnect_connected_without_storage listener_set_def pre_connect_set_def)

subsection \<open>isAuthorized\<close>

text \<open>
  C5.  \<open>isAuthorized\<close> always returns a truth value and never throws.  When the
  persisted flag \<open>metaKeep.disconnected\<close> is \<open>true\<close> it returns \<open>false\<close>.  In general it
  returns \<open>true\<close> exactly when the storage was read without an error, the flag is not
  \<open>true\<close>, and \<open>getAccounts\<close> returned a non-empty list; an error of the storage or of
  \<open>getAccounts\<close> gives \<open>false\<close>.
\<close>

theorem isAuthorized_never_throws:
  "\<exists>b s'. isAuthorized E s = (Return b, s') \<and>
     ((\<exists>m. storage s = Some m \<and> m disconnected_key = Some True) \<longrightarrow> \<not> b) \<and>
     (b \<longleftrightarrow>
        (\<exists>v s1 accounts s2.
           storage_getItem E disconnected_key s = (Return v, s1) \<and> v \<noteq> Some True \<and>
           getAccounts E s1 = (Return accounts, s2) \<and> accounts \<noteq> []))"
proof -
  obtain r1 s1 where g: "storage_getItem E disconnected_key s = (r1, s1)"
    by (cases "storage_getItem E disconnected_key s")
  show ?thesis
  proof (cases r1)
    case (Return v)
    show ?thesis
    proof (cases "v = Some True")
      case True
      with g Return show ?thesis
        by (auto simp: isAuthorized_def try_catch_def bnd_def ret_def)
    next
      case False
      obtain r2 s2 where a: "getAccounts E s1 = (r2, s2)"
        by (cases "getAccounts E s1")
      have flag: "\<not> (\<exists>m. storage s = Some m \<and> m disconnected_key = Some True)"
        using storage_getItem_flag g Return False by fastforce
      show ?thesis
      proof (cases r2)
        case (Return accounts)
        with g \<open>r1 = Return v\<close> False a flag show ?thesis
          by (auto simp: isAuthorized_def try_catch_def bnd_def ret_def)
      next
        case (Throw e)
        with g \<open>r1 = Return v\<close> False a show ?thesis
          by (auto simp: isAuthorized_def try_catch_def bnd_def ret_def)
      next
        case Hang
        with a getAccounts_settles [of E s1] show ?thesis by simp
      qed
    qed
  next
    case (Throw e)
    with g show ?thesis
      by (auto simp: isAuthorized_def try_catch_def bnd_def ret_def)
  next
    case Hang
    with g storage_getItem_settles [of E disconnected_key s] show ?thesis by simp
  qed
qed

theorem isAuthorized_never_throws_witness:
  "(\<exists>m. storage disconnected = Some m \<and> m disconnected_key = Some True) \<and>
   fst (isAuthorized env_amoy disconnected) = Return False"
  using isAuthorized_never_throws [of env_amoy disconnected]
  by (auto simp: disconnected_eq)

subsection \<open>The handlers of accountsChanged and disconnect\<close>

text \<open>
  C6.  \<open>onAccountsChanged\<close> with an empty account list and \<open>onDisconnect\<close> without an
  argument emit the same events and leave the provider with the same listener set.
\<close>

theorem onAccountsChanged_empty:
  "emitted (snd (onAccountsChanged E [] s)) = emitted (snd (onDisconnect E None s)) \<and>
   map_option listener_set (provider (snd (onAccountsChanged E [] s)))
     = map_option listener_set (provider (snd (onDisconnect E None s)))"
  by (simp add: onAccountsChanged_def not_awaited_def)

theorem onAccountsChanged_empty_witness:
  "emitted (snd (onAccountsChanged env_amoy [] connected)) = [EmitDisconnect] \<and>
   emitted (snd (onDisconnect env_amoy None connected)) = [EmitDisconnect] \<and>
   map_option listener_set (provider (snd (onAccountsChanged env_amoy [] connected)))
     = Some {''accountsChanged'', ''disconnect'', ''connect''} \<and>
   map_option listener_set (provider (snd (onDisconnect env_amoy None connected)))
     = Some {''accountsChanged'', ''disconnect'', ''connect''}"
  using onAccountsChanged_empty [of env_amoy connected]
  by (simp add: onDisconnect_connected listener_set_def)



end
